theory Spec2Isabelle
  imports Main "HOL-Library.Word"
begin

section \<open>waddrmgr/keymaker.go: the key makers of the address manager\<close>

text \<open>
  The file declares the \<open>KeyMaker\<close> interface and its two implementations,
  \<open>LocalKeyMaker\<close> and \<open>RemoteKeyMaker\<close>. Everything the file imports
  (package hdkeychain, the store lookup \<open>fetchMasterHDKeys\<close>, the decryptor, the
  constants of manager.go) is outside it and enters the model as a parameter,
  collected in the record \<open>env\<close>. Every call of such a function is written to a
  log, and the buffer that \<open>Decrypt\<close> returns lives in an explicit store, so that
  "no store lookup", "no decrypt" and "the buffer is erased" are statements
  about values.
\<close>

subsection \<open>Data\<close>

type_synonym byte = "8 word"
type_synonym bytes = "byte list"
type_synonym uint32 = "32 word"

text \<open>
  The error codes of package waddrmgr that keymaker.go names, and
  \<open>ErrDatabase\<close> for a failing store. The type itself is declared in error.go.
\<close>

datatype ErrorCode =
    ErrDatabase
  | ErrKeyChain
  | ErrLocked
  | ErrWatchingOnly
  | ErrAccountNumTooHigh
  | ErrCoinTypeTooHigh

text \<open>
  A Go \<open>error\<close> value here is either a \<open>ManagerError\<close> (code, description, wrapped
  error or nil) or the result of \<open>errors.New\<close>.
\<close>

datatype error =
    ManagerError ErrorCode string "error option"
  | ErrorString string

definition managerError :: "ErrorCode \<Rightarrow> string \<Rightarrow> error option \<Rightarrow> error" where
  "managerError c desc err = ManagerError c desc err"

definition errors_New :: "string \<Rightarrow> error" where
  "errors_New str = ErrorString str"

text \<open>
  A call either returns its Go result or panics. The result of the three
  operations, \<open>(priv, pub, err)\<close> in Go, is \<open>Inl err\<close> (both keys nil) or
  \<open>Inr (priv, pub)\<close> (err nil): every return statement of the file has one of
  these two shapes.
\<close>

datatype 'a outcome = Return 'a | Panic string

definition nil_dereference :: string where
  "nil_dereference = ''runtime error: invalid memory address or nil pointer dereference''"

record KeyScope =
  Purpose :: uint32
  Coin :: uint32

text \<open>The interface \<open>EncryptorDecryptor\<close>; only \<open>Decrypt\<close> is called here.\<close>

record EncryptorDecryptor =
  Decrypt :: "bytes \<Rightarrow> error + bytes"

text \<open>
  What the file takes from outside: the constants \<open>maxCoinType\<close>,
  \<open>MaxAccountNum\<close>, \<open>errCoinTypeTooHigh\<close> and \<open>errAcctTooHigh\<close> of manager.go,
  \<open>hdkeychain.HardenedKeyStart\<close>, the four functions of hdkeychain on extended
  keys of type \<open>'k\<close>, and the store lookup on a bucket of type \<open>'ns\<close>. A nil
  slice is \<open>None\<close>. hdkeychain returns a nil key with every error, which the sum
  type says.
\<close>

record ('k, 'p, 'ns) env =
  maxCoinType :: uint32
  MaxAccountNum :: uint32
  HardenedKeyStart :: uint32
  errCoinTypeTooHigh :: string
  errAcctTooHigh :: string
  NewMaster :: "bytes \<Rightarrow> 'p option \<Rightarrow> error + 'k"
  Child :: "'k \<Rightarrow> uint32 \<Rightarrow> error + 'k"
  Neuter :: "'k \<Rightarrow> error + 'k"
  NewKeyFromString :: "bytes \<Rightarrow> error + 'k"
  fetchMasterHDKeys :: "'ns \<Rightarrow> error + (bytes option \<times> bytes option)"

text \<open>The struct \<open>LocalKeyMaker\<close>; a nil pointer is \<open>None\<close>, a nil slice \<open>[]\<close>.\<close>

record ('k, 'p, 'm) LocalKeyMaker =
  seed :: bytes
  chainParams :: "'p option"
  rootPrivKey :: "'k option"
  manager :: "'m option"

record 'h RemoteKeyMaker =
  hwConfig :: "'h option"

subsection \<open>The log of outside calls and the buffer store\<close>

datatype 'k event =
    CallNewMaster
  | CallChild 'k uint32
  | CallNeuter 'k
  | CallNewKeyFromString
  | CallFetchMasterHDKeys
  | CallDecrypt bytes
  | CallZeroBytes nat

record 'k world =
  events :: "'k event list"
  buffers :: "bytes list"

definition record_call :: "'k event \<Rightarrow> 'k world \<Rightarrow> 'k world" where
  "record_call e w = w\<lparr>events := events w @ [e]\<rparr>"

text \<open>A successful \<open>Decrypt\<close> hands back a fresh buffer: its address and the new store.\<close>

definition alloc :: "bytes \<Rightarrow> 'k world \<Rightarrow> nat \<times> 'k world" where
  "alloc b w = (length (buffers w), w\<lparr>buffers := buffers w @ [b]\<rparr>)"

text \<open>
  Modelled from the spec: \<open>zero.Bytes\<close> of internal/zero, the memory-wiping
  utility, is not in the file; it overwrites every byte of the slice it is given
  with zero.
\<close>

definition zero_Bytes :: "nat \<Rightarrow> 'k world \<Rightarrow> 'k world" where
  "zero_Bytes a w =
     record_call (CallZeroBytes a)
       (w\<lparr>buffers := (buffers w)[a := map (\<lambda>_. 0) (buffers w ! a)]\<rparr>)"

fun isFetch :: "'k event \<Rightarrow> bool" where
  "isFetch CallFetchMasterHDKeys = True"
| "isFetch _ = False"

fun isDecrypt :: "'k event \<Rightarrow> bool" where
  "isDecrypt (CallDecrypt _) = True"
| "isDecrypt _ = False"

fun isDerivation :: "'k event \<Rightarrow> bool" where
  "isDerivation (CallChild _ _) = True"
| "isDerivation (CallNeuter _) = True"
| "isDerivation CallNewMaster = True"
| "isDerivation _ = False"

definition lookups :: "'k world \<Rightarrow> nat" where
  "lookups w = length (filter isFetch (events w))"

definition decrypts :: "'k world \<Rightarrow> nat" where
  "decrypts w = length (filter isDecrypt (events w))"

subsection \<open>Constructors\<close>

definition NewLocalKeyMaker ::
  "'k option \<Rightarrow> error + ('k, 'p, 'm) LocalKeyMaker" where
  "NewLocalKeyMaker root =
     Inr \<lparr>seed = [], chainParams = None, rootPrivKey = root, manager = None\<rparr>"

definition NewLocalKeyMakerFromSeed ::
  "bytes \<Rightarrow> 'p option \<Rightarrow> ('k, 'p, 'm) LocalKeyMaker" where
  "NewLocalKeyMakerFromSeed sd params =
     \<lparr>seed = sd, chainParams = params, rootPrivKey = None, manager = None\<rparr>"

definition NewRemoteKeyMaker :: "'h option \<Rightarrow> error + 'h RemoteKeyMaker" where
  "NewRemoteKeyMaker cfg = Inr \<lparr>hwConfig = cfg\<rparr>"

subsection \<open>LocalKeyMaker.CreateMasterKey (lines 46-61)\<close>

definition CreateMasterKey ::
  "('k, 'p, 'ns) env \<Rightarrow> ('k, 'p, 'm) LocalKeyMaker \<Rightarrow> 'k world \<Rightarrow>
   (error + 'k \<times> 'k) outcome \<times> ('k, 'p, 'm) LocalKeyMaker \<times> 'k world" where
  "CreateMasterKey env s w =
     (let w1 = record_call CallNewMaster w in
      case NewMaster env (seed s) (chainParams s) of
        Inl err \<Rightarrow>
          (Return (Inl (errors_New ''failed to derive master extended key'')), s, w1)
      | Inr root \<Rightarrow>
          (let w2 = record_call (CallNeuter root) w1 in
           case Neuter env root of
             Inl err \<Rightarrow>
               (Return (Inl (errors_New ''failed to neuter master extended key'')), s, w2)
           | Inr rootPub \<Rightarrow>
               (Return (Inr (root, rootPub)), s\<lparr>rootPrivKey := Some root\<rparr>, w2)))"

subsection \<open>LocalKeyMaker.DeriveCoinTypeKey (lines 63-133)\<close>

text \<open>
  Lines 114-132, the part of the function after the root key is known to be
  there: purpose child, coin-type child, neuter.
\<close>

definition coinTypeFromRoot ::
  "('k, 'p, 'ns) env \<Rightarrow> 'k \<Rightarrow> KeyScope \<Rightarrow> 'k world \<Rightarrow> (error + 'k \<times> 'k) \<times> 'k world" where
  "coinTypeFromRoot env root scope w =
     (let w1 = record_call (CallChild root (Purpose scope + HardenedKeyStart env)) w in
      case Child env root (Purpose scope + HardenedKeyStart env) of
        Inl err \<Rightarrow> (Inl err, w1)
      | Inr purpose \<Rightarrow>
          (let w2 = record_call (CallChild purpose (Coin scope + HardenedKeyStart env)) w1 in
           case Child env purpose (Coin scope + HardenedKeyStart env) of
             Inl err \<Rightarrow> (Inl err, w2)
           | Inr coinTypePrivKey \<Rightarrow>
               (let w3 = record_call (CallNeuter coinTypePrivKey) w2 in
                case Neuter env coinTypePrivKey of
                  Inl err \<Rightarrow>
                    (Inl (errors_New ''failed to convert cointype private key''), w3)
                | Inr coinTypePubKey \<Rightarrow>
                    (Inr (coinTypePrivKey, coinTypePubKey), w3))))"

text \<open>
  Line 93 assigns the first result of \<open>NewKeyFromString\<close> to \<open>s.rootPrivKey\<close>
  whether or not parsing failed (nil when it failed), line 96 wipes the buffer,
  and only then line 97 looks at the error.
\<close>

definition DeriveCoinTypeKey ::
  "('k, 'p, 'ns) env \<Rightarrow> KeyScope \<Rightarrow> 'ns \<Rightarrow> EncryptorDecryptor \<Rightarrow>
   ('k, 'p, 'm) LocalKeyMaker \<Rightarrow> 'k world \<Rightarrow>
   (error + 'k \<times> 'k) outcome \<times> ('k, 'p, 'm) LocalKeyMaker \<times> 'k world" where
  "DeriveCoinTypeKey env scope ns cryptoKeyPriv s w =
     (if Coin scope > maxCoinType env then
        (Return (Inl (managerError ErrCoinTypeTooHigh (errCoinTypeTooHigh env) None)), s, w)
      else
        case rootPrivKey s of
          Some root \<Rightarrow>
            (case coinTypeFromRoot env root scope w of (r, w') \<Rightarrow> (Return r, s, w'))
        | None \<Rightarrow>
            (let w1 = record_call CallFetchMasterHDKeys w in
             case fetchMasterHDKeys env ns of
               Inl err \<Rightarrow> (Return (Inl err), s, w1)
             | Inr (masterRootPrivEnc, masterRootPubEnc) \<Rightarrow>
                 (case masterRootPrivEnc of
                    None \<Rightarrow> (Return (Inl (managerError ErrWatchingOnly [] None)), s, w1)
                  | Some enc \<Rightarrow>
                      (let w2 = record_call (CallDecrypt enc) w1 in
                       case Decrypt cryptoKeyPriv enc of
                         Inl err \<Rightarrow>
                           (Return (Inl (managerError ErrLocked
                              ''failed to decrypt master root serialized private key''
                              (Some err))), s, w2)
                       | Inr plaintext \<Rightarrow>
                           (case alloc plaintext w2 of (a, w3) \<Rightarrow>
                              (let w4 = record_call CallNewKeyFromString w3;
                                   parsed = NewKeyFromString env (buffers w4 ! a);
                                   s1 = s\<lparr>rootPrivKey :=
                                          (case parsed of Inl err \<Rightarrow> None | Inr k \<Rightarrow> Some k)\<rparr>;
                                   w5 = zero_Bytes a w4
                               in case parsed of
                                    Inl err \<Rightarrow>
                                      (Return (Inl (managerError ErrKeyChain
                                         ''failed to create master extended private key''
                                         (Some err))), s1, w5)
                                  | Inr root \<Rightarrow>
                                      (case coinTypeFromRoot env root scope w5 of
                                         (r, w') \<Rightarrow> (Return r, s1, w'))))))))"

subsection \<open>LocalKeyMaker.DeriveAccountKey (lines 135-156)\<close>

text \<open>
  Line 142 keeps the private key that \<open>DeriveCoinTypeKey\<close> returns and stores
  its error in \<open>err\<close>; line 144 overwrites \<open>err\<close> without having read it and
  calls \<open>Child\<close> on the key. \<open>Child\<close> is a method of \<open>*ExtendedKey\<close> that reads
  the fields of its receiver, so on the nil key of an error return the call
  panics with a nil pointer dereference.
\<close>

definition DeriveAccountKey ::
  "('k, 'p, 'ns) env \<Rightarrow> KeyScope \<Rightarrow> uint32 \<Rightarrow> 'ns \<Rightarrow> EncryptorDecryptor \<Rightarrow>
   ('k, 'p, 'm) LocalKeyMaker \<Rightarrow> 'k world \<Rightarrow>
   (error + 'k \<times> 'k) outcome \<times> ('k, 'p, 'm) LocalKeyMaker \<times> 'k world" where
  "DeriveAccountKey env scope account ns cryptoKeyPriv s w =
     (if account > MaxAccountNum env then
        (Return (Inl (managerError ErrAccountNumTooHigh (errAcctTooHigh env) None)), s, w)
      else
        case DeriveCoinTypeKey env scope ns cryptoKeyPriv s w of
          (Panic p, s1, w1) \<Rightarrow> (Panic p, s1, w1)
        | (Return r, s1, w1) \<Rightarrow>
            (let coinTypePrivKey = (case r of Inl err \<Rightarrow> None | Inr (priv, pub) \<Rightarrow> Some priv)
             in case coinTypePrivKey of
                  None \<Rightarrow> (Panic nil_dereference, s1, w1)
                | Some ctk \<Rightarrow>
                    (let w2 = record_call (CallChild ctk (account + HardenedKeyStart env)) w1 in
                     case Child env ctk (account + HardenedKeyStart env) of
                       Inl err \<Rightarrow> (Return (Inl err), s1, w2)
                     | Inr acctKeyPriv \<Rightarrow>
                         (let w3 = record_call (CallNeuter acctKeyPriv) w2 in
                          case Neuter env acctKeyPriv of
                            Inl err \<Rightarrow>
                              (Return (Inl (errors_New
                                 ''failed to convert private key for account 0'')), s1, w3)
                          | Inr acctKeyPub \<Rightarrow>
                              (Return (Inr (acctKeyPriv, acctKeyPub)), s1, w3)))))"

subsection \<open>RemoteKeyMaker (lines 158-176)\<close>

text \<open>Each of the three methods is the single statement \<open>panic("implement me")\<close>.\<close>

definition Remote_CreateMasterKey ::
  "'h RemoteKeyMaker \<Rightarrow> 'k world \<Rightarrow>
   (error + 'k \<times> 'k) outcome \<times> 'h RemoteKeyMaker \<times> 'k world" where
  "Remote_CreateMasterKey s w = (Panic ''implement me'', s, w)"

definition Remote_DeriveCoinTypeKey ::
  "KeyScope \<Rightarrow> 'ns \<Rightarrow> EncryptorDecryptor \<Rightarrow> 'h RemoteKeyMaker \<Rightarrow> 'k world \<Rightarrow>
   (error + 'k \<times> 'k) outcome \<times> 'h RemoteKeyMaker \<times> 'k world" where
  "Remote_DeriveCoinTypeKey scope ns cryptoKeyPriv s w = (Panic ''implement me'', s, w)"

definition Remote_DeriveAccountKey ::
  "KeyScope \<Rightarrow> uint32 \<Rightarrow> 'ns \<Rightarrow> EncryptorDecryptor \<Rightarrow> 'h RemoteKeyMaker \<Rightarrow> 'k world \<Rightarrow>
   (error + 'k \<times> 'k) outcome \<times> 'h RemoteKeyMaker \<times> 'k world" where
  "Remote_DeriveAccountKey scope account ns cryptoKeyPriv s w = (Panic ''implement me'', s, w)"

subsection \<open>The path the specification composes by hand\<close>

text \<open>
  The specification's scenario names the key
  \<open>NewMasterFromSeed(S,P).Child(purpose+H).Child(coin+H).Child(account+H)\<close>.
  This definition follows those words, not the code; a failing step ends the
  composition with its error.
\<close>

definition and_then :: "error + 'a \<Rightarrow> ('a \<Rightarrow> error + 'b) \<Rightarrow> error + 'b" where
  "and_then r f = (case r of Inl e \<Rightarrow> Inl e | Inr x \<Rightarrow> f x)"

definition spec_manual_account_key ::
  "('k, 'p, 'ns) env \<Rightarrow> bytes \<Rightarrow> 'p option \<Rightarrow> KeyScope \<Rightarrow> uint32 \<Rightarrow> error + 'k" where
  "spec_manual_account_key env S P scope account =
     and_then (and_then (and_then (NewMaster env S P)
       (\<lambda>m. Child env m (Purpose scope + HardenedKeyStart env)))
       (\<lambda>k. Child env k (Coin scope + HardenedKeyStart env)))
       (\<lambda>k. Child env k (account + HardenedKeyStart env))"

text \<open>
  In hdkeychain \<open>Neuter\<close> fails only on a private key whose version bytes are
  not registered, and \<open>Child\<close> hands the version of the parent to the child. A
  key library with this property:
\<close>

definition neuter_follows_child :: "('k, 'p, 'ns) env \<Rightarrow> bool" where
  "neuter_follows_child env \<longleftrightarrow>
     (\<forall>k i c pub. Neuter env k = Inr pub \<longrightarrow> Child env k i = Inr c \<longrightarrow>
        (\<exists>pub'. Neuter env c = Inr pub'))"

subsection \<open>Two calls in a row\<close>

definition DeriveCoinTypeKey_twice ::
  "('k, 'p, 'ns) env \<Rightarrow> KeyScope \<Rightarrow> KeyScope \<Rightarrow> 'ns \<Rightarrow> EncryptorDecryptor \<Rightarrow>
   ('k, 'p, 'm) LocalKeyMaker \<Rightarrow> 'k world \<Rightarrow>
   (error + 'k \<times> 'k) outcome \<times> (error + 'k \<times> 'k) outcome \<times>
   ('k, 'p, 'm) LocalKeyMaker \<times> 'k world" where
  "DeriveCoinTypeKey_twice env scope1 scope2 ns cryptoKeyPriv s w =
     (case DeriveCoinTypeKey env scope1 ns cryptoKeyPriv s w of
        (r1, s1, w1) \<Rightarrow>
          (case DeriveCoinTypeKey env scope2 ns cryptoKeyPriv s1 w1 of
             (r2, s2, w2) \<Rightarrow> (r1, r2, s2, w2)))"

subsection \<open>A small key library to run the model on\<close>

text \<open>
  A toy extended key is private or public and remembers its seed and the path
  of child indices that led to it. The coin-type bound is the specification's
  policy value \<open>2^31 - 1\<close>; the account bound \<open>2^31 - 2\<close>, the hardened start
  \<open>2^31\<close> and the seed lengths (16 to 64 bytes) are the values that btcwallet
  and BIP32 use. A toy bucket is the answer its lookup gives. The theorems
  below hold for every environment; this one serves to run them.
\<close>

datatype toy_key = ToyPriv bytes "uint32 list" | ToyPub bytes "uint32 list"

definition toy_NewMaster :: "bytes \<Rightarrow> nat option \<Rightarrow> error + toy_key" where
  "toy_NewMaster sd params =
     (if length sd < 16 \<or> 64 < length sd
      then Inl (ErrorString ''seed length must be between 128 and 512 bits'')
      else Inr (ToyPriv sd []))"

fun toy_Child :: "toy_key \<Rightarrow> uint32 \<Rightarrow> error + toy_key" where
  "toy_Child (ToyPriv sd path) i = Inr (ToyPriv sd (path @ [i]))"
| "toy_Child (ToyPub sd path) i =
     (if 0x80000000 \<le> i
      then Inl (ErrorString ''cannot derive a hardened key from a public key'')
      else Inr (ToyPub sd (path @ [i])))"

fun toy_Neuter :: "toy_key \<Rightarrow> error + toy_key" where
  "toy_Neuter (ToyPriv sd path) = Inr (ToyPub sd path)"
| "toy_Neuter (ToyPub sd path) = Inr (ToyPub sd path)"

definition toy_NewKeyFromString :: "bytes \<Rightarrow> error + toy_key" where
  "toy_NewKeyFromString b =
     (if length b = 4 then Inr (ToyPriv b [])
      else Inl (ErrorString ''the provided serialized extended key length is invalid''))"

definition toy_env :: "(toy_key, nat, error + (bytes option \<times> bytes option)) env" where
  "toy_env =
     \<lparr>maxCoinType = 0x7FFFFFFF,
      MaxAccountNum = 0x7FFFFFFE,
      HardenedKeyStart = 0x80000000,
      errCoinTypeTooHigh = ''coin type may not exceed 2^31 - 1'',
      errAcctTooHigh = ''account number may not exceed 2^31 - 2'',
      NewMaster = toy_NewMaster,
      Child = toy_Child,
      Neuter = toy_Neuter,
      NewKeyFromString = toy_NewKeyFromString,
      fetchMasterHDKeys = (\<lambda>ns. ns)\<rparr>"

definition locked_decryptor :: EncryptorDecryptor where
  "locked_decryptor = \<lparr>Decrypt = (\<lambda>c. Inl (ErrorString ''wrong passphrase''))\<rparr>"

definition unlocked_decryptor :: EncryptorDecryptor where
  "unlocked_decryptor = \<lparr>Decrypt = (\<lambda>c. Inr (rev c))\<rparr>"

definition bip44_btc :: KeyScope where
  "bip44_btc = \<lparr>Purpose = 44, Coin = 0\<rparr>"

definition coin_too_high :: KeyScope where
  "coin_too_high = \<lparr>Purpose = 44, Coin = 0x80000000\<rparr>"

definition world0 :: "toy_key world" where
  "world0 = \<lparr>events = [], buffers = []\<rparr>"

definition no_root_maker :: "(toy_key, nat, unit) LocalKeyMaker" where
  "no_root_maker = \<lparr>seed = [], chainParams = None, rootPrivKey = None, manager = None\<rparr>"

definition seed16 :: bytes where
  "seed16 = [1, 2, 3, 4, 5, 6, 7, 8, 9, 10, 11, 12, 13, 14, 15, 16]"

definition seeded_maker :: "(toy_key, nat, unit) LocalKeyMaker" where
  "seeded_maker = NewLocalKeyMakerFromSeed seed16 (Some 0)"

definition rooted_maker :: "(toy_key, nat, unit) LocalKeyMaker" where
  "rooted_maker =
     \<lparr>seed = [], chainParams = None, rootPrivKey = Some (ToyPriv [9, 9, 9, 9] []),
      manager = None\<rparr>"

definition store_with_key :: "error + (bytes option \<times> bytes option)" where
  "store_with_key = Inr (Some [4, 3, 2, 1], Some [5, 5])"

definition store_watching_only :: "error + (bytes option \<times> bytes option)" where
  "store_watching_only = Inr (None, Some [5, 5])"

definition store_corrupt :: "error + (bytes option \<times> bytes option)" where
  "store_corrupt = Inr (Some [4, 3, 2], Some [5, 5])"

definition remote_maker :: "unit RemoteKeyMaker" where
  "remote_maker = \<lparr>hwConfig = None\<rparr>"

text \<open>Names for the values that the runs below produce.\<close>

definition stored_root :: toy_key where
  "stored_root = ToyPriv [1, 2, 3, 4] []"

definition btc_priv :: toy_key where
  "btc_priv = ToyPriv [1, 2, 3, 4] [0x8000002C, 0x80000000]"

definition btc_pub :: toy_key where
  "btc_pub = ToyPub [1, 2, 3, 4] [0x8000002C, 0x80000000]"

definition load_events :: "toy_key event list" where
  "load_events =
     [CallFetchMasterHDKeys, CallDecrypt [4, 3, 2, 1], CallNewKeyFromString, CallZeroBytes 0]"

definition derive_btc_events :: "toy_key event list" where
  "derive_btc_events =
     [CallChild stored_root 0x8000002C,
      CallChild (ToyPriv [1, 2, 3, 4] [0x8000002C]) 0x80000000,
      CallNeuter btc_priv]"

definition locked_error :: error where
  "locked_error =
     ManagerError ErrLocked ''failed to decrypt master root serialized private key''
       (Some (ErrorString ''wrong passphrase''))"

definition locked_world :: "toy_key world" where
  "locked_world = \<lparr>events = [CallFetchMasterHDKeys, CallDecrypt [4, 3, 2, 1]], buffers = []\<rparr>"

definition toy_master :: toy_key where
  "toy_master = ToyPriv seed16 []"

definition toy_coin_key :: toy_key where
  "toy_coin_key = ToyPriv seed16 [0x8000002C, 0x80000000]"

definition toy_account :: toy_key where
  "toy_account = ToyPriv seed16 [0x8000002C, 0x80000000, 0x80000000]"

definition toy_account_pub :: toy_key where
  "toy_account_pub = ToyPub seed16 [0x8000002C, 0x80000000, 0x80000000]"

definition created_maker :: "(toy_key, nat, unit) LocalKeyMaker" where
  "created_maker = seeded_maker\<lparr>rootPrivKey := Some toy_master\<rparr>"

section \<open>Facts about the model\<close>

lemmas toy_defs = toy_env_def toy_NewMaster_def toy_NewKeyFromString_def locked_decryptor_def
  unlocked_decryptor_def bip44_btc_def coin_too_high_def world0_def no_root_maker_def seed16_def
  seeded_maker_def rooted_maker_def store_with_key_def store_watching_only_def store_corrupt_def
  remote_maker_def NewLocalKeyMakerFromSeed_def NewLocalKeyMaker_def stored_root_def btc_priv_def
  btc_pub_def load_events_def derive_btc_events_def locked_error_def locked_world_def
  toy_master_def toy_coin_key_def toy_account_def toy_account_pub_def created_maker_def

lemmas op_defs = DeriveCoinTypeKey_def DeriveAccountKey_def CreateMasterKey_def
  coinTypeFromRoot_def record_call_def alloc_def zero_Bytes_def managerError_def errors_New_def
  Let_def

subsection \<open>The log\<close>

lemma lookups_record_call:
  "lookups (record_call e w) = (if isFetch e then Suc (lookups w) else lookups w)"
  by (simp add: lookups_def record_call_def)

lemma decrypts_record_call:
  "decrypts (record_call e w) = (if isDecrypt e then Suc (decrypts w) else decrypts w)"
  by (simp add: decrypts_def record_call_def)

lemma buffers_record_call: "buffers (record_call e w) = buffers w"
  by (simp add: record_call_def)

subsection \<open>Lines 114-132\<close>

text \<open>The derivation chain touches neither the store nor the decryptor nor a buffer.\<close>

lemma coinTypeFromRoot_quiet:
  "lookups (snd (coinTypeFromRoot env root scope w)) = lookups w \<and>
   decrypts (snd (coinTypeFromRoot env root scope w)) = decrypts w \<and>
   buffers (snd (coinTypeFromRoot env root scope w)) = buffers w"
  by (simp add: coinTypeFromRoot_def Let_def lookups_record_call decrypts_record_call
      buffers_record_call split: sum.splits)

lemma coinTypeFromRoot_result:
  "fst (coinTypeFromRoot env root scope w) = fst (coinTypeFromRoot env root scope w')"
  by (simp add: coinTypeFromRoot_def Let_def split: sum.splits)

lemma coinTypeFromRoot_ok:
  assumes "Child env root (Purpose scope + HardenedKeyStart env) = Inr pk"
    and "Child env pk (Coin scope + HardenedKeyStart env) = Inr ck"
    and "Neuter env ck = Inr cpub"
  shows "fst (coinTypeFromRoot env root scope w) = Inr (ck, cpub)"
  using assms by (simp add: coinTypeFromRoot_def Let_def)

lemma coinTypeFromRoot_Inr:
  "fst (coinTypeFromRoot env root scope w) = Inr (ck, cpub) \<longleftrightarrow>
     (\<exists>pk. Child env root (Purpose scope + HardenedKeyStart env) = Inr pk \<and>
           Child env pk (Coin scope + HardenedKeyStart env) = Inr ck \<and>
           Neuter env ck = Inr cpub)"
  by (auto simp: coinTypeFromRoot_def Let_def errors_New_def split: sum.splits)

subsection \<open>The paths through DeriveCoinTypeKey\<close>

lemma DeriveCoinTypeKey_cached:
  assumes "rootPrivKey s = Some root" and "Coin scope \<le> maxCoinType env"
  shows "DeriveCoinTypeKey env scope ns dec s w =
     (Return (fst (coinTypeFromRoot env root scope w)), s, snd (coinTypeFromRoot env root scope w))"
  using assms leD[OF assms(2)] by (simp add: DeriveCoinTypeKey_def split: prod.splits)

lemma DeriveCoinTypeKey_cached_quiet:
  assumes "rootPrivKey s = Some root"
  shows "fst (snd (DeriveCoinTypeKey env scope ns dec s w)) = s \<and>
         lookups (snd (snd (DeriveCoinTypeKey env scope ns dec s w))) = lookups w \<and>
         decrypts (snd (snd (DeriveCoinTypeKey env scope ns dec s w))) = decrypts w"
  using assms coinTypeFromRoot_quiet[of env root scope w]
  by (auto simp: DeriveCoinTypeKey_def split: prod.splits)

text \<open>
  The path through lines 71-96 when the store has a record and \<open>Decrypt\<close>
  succeeds: one lookup, one decrypt, one parse, and the buffer wiped.
\<close>

lemma DeriveCoinTypeKey_loads:
  assumes "rootPrivKey s = None" and "Coin scope \<le> maxCoinType env"
    and "fetchMasterHDKeys env ns = Inr (Some enc, pubEnc)"
    and "Decrypt dec enc = Inr pt"
  shows "DeriveCoinTypeKey env scope ns dec s w =
     (let w5 = record_call (CallZeroBytes (length (buffers w)))
                 (w\<lparr>events := events w @
                       [CallFetchMasterHDKeys, CallDecrypt enc, CallNewKeyFromString],
                    buffers := buffers w @ [map (\<lambda>_. 0) pt]\<rparr>)
      in case NewKeyFromString env pt of
           Inl err \<Rightarrow>
             (Return (Inl (managerError ErrKeyChain
                ''failed to create master extended private key'' (Some err))), s, w5)
         | Inr root \<Rightarrow>
             (Return (fst (coinTypeFromRoot env root scope w5)),
              s\<lparr>rootPrivKey := Some root\<rparr>, snd (coinTypeFromRoot env root scope w5)))"
  using assms leD[OF assms(2)]
  by (simp add: DeriveCoinTypeKey_def alloc_def zero_Bytes_def record_call_def Let_def
      split: prod.splits sum.splits)

lemma DeriveCoinTypeKey_never_panics:
  "fst (DeriveCoinTypeKey env scope ns dec s w) \<noteq> Panic p"
  by (simp add: DeriveCoinTypeKey_def alloc_def Let_def
      split: prod.splits sum.splits option.splits)

text \<open>\<open>Decrypt\<close> is called only below both guards: scope in bounds, no cached key.\<close>

lemma DeriveCoinTypeKey_decrypt_reached:
  assumes "DeriveCoinTypeKey env scope ns dec s w = (r, s', w')" and "decrypts w < decrypts w'"
  shows "Coin scope \<le> maxCoinType env \<and> rootPrivKey s = None"
proof -
  have "\<not> maxCoinType env < Coin scope"
    using assms by (auto simp: DeriveCoinTypeKey_def)
  moreover have "rootPrivKey s = None"
  proof (cases "rootPrivKey s")
    case (Some root)
    with assms coinTypeFromRoot_quiet[of env root scope w] show ?thesis
      by (auto simp: DeriveCoinTypeKey_def split: if_splits prod.splits)
  qed simp
  ultimately show ?thesis by simp
qed

subsection \<open>The two continuations of DeriveAccountKey after line 142\<close>

lemma DeriveAccountKey_drops_error:
  assumes "account \<le> MaxAccountNum env"
    and "DeriveCoinTypeKey env scope ns dec s w = (Return (Inl e), s1, w1)"
  shows "DeriveAccountKey env scope account ns dec s w = (Panic nil_dereference, s1, w1)"
  using assms leD[OF assms(1)] by (simp add: DeriveAccountKey_def)

lemma DeriveAccountKey_continues:
  assumes "account \<le> MaxAccountNum env"
    and "DeriveCoinTypeKey env scope ns dec s w = (Return (Inr (ck, cpub)), s1, w1)"
  shows "DeriveAccountKey env scope account ns dec s w =
     (let w2 = record_call (CallChild ck (account + HardenedKeyStart env)) w1 in
      case Child env ck (account + HardenedKeyStart env) of
        Inl err \<Rightarrow> (Return (Inl err), s1, w2)
      | Inr ak \<Rightarrow>
          (case Neuter env ak of
             Inl err \<Rightarrow>
               (Return (Inl (errors_New ''failed to convert private key for account 0'')),
                s1, record_call (CallNeuter ak) w2)
           | Inr apub \<Rightarrow> (Return (Inr (ak, apub)), s1, record_call (CallNeuter ak) w2)))"
  using assms leD[OF assms(1)]
  by (simp add: DeriveAccountKey_def Let_def split: sum.splits)

lemma DeriveAccountKey_cached:
  assumes "rootPrivKey s = Some root" and "Coin scope \<le> maxCoinType env"
    and "account \<le> MaxAccountNum env"
  shows "fst (snd (DeriveAccountKey env scope account ns dec s w)) = s \<and>
         lookups (snd (snd (DeriveAccountKey env scope account ns dec s w))) = lookups w \<and>
         decrypts (snd (snd (DeriveAccountKey env scope account ns dec s w))) = decrypts w"
proof (cases "fst (coinTypeFromRoot env root scope w)")
  case (Inl e)
  then show ?thesis
    using DeriveAccountKey_drops_error[OF assms(3), of scope ns dec s w e]
      DeriveCoinTypeKey_cached[OF assms(1,2), of ns dec w]
      coinTypeFromRoot_quiet[of env root scope w]
    by simp
next
  case (Inr kp)
  obtain ck cpub where kp: "kp = (ck, cpub)" by (cases kp)
  show ?thesis
    using DeriveAccountKey_continues[OF assms(3), of scope ns dec s w ck cpub]
      DeriveCoinTypeKey_cached[OF assms(1,2), of ns dec w]
      coinTypeFromRoot_quiet[of env root scope w] Inr kp
    by (simp add: Let_def lookups_record_call decrypts_record_call split: sum.splits)
qed

subsection \<open>CreateMasterKey\<close>

lemma CreateMasterKey_success:
  assumes "CreateMasterKey env s0 w0 = (Return (Inr (m, mpub)), s, w1)"
  shows "NewMaster env (seed s0) (chainParams s0) = Inr m \<and> Neuter env m = Inr mpub \<and>
         s = s0\<lparr>rootPrivKey := Some m\<rparr>"
  using assms by (auto simp: CreateMasterKey_def Let_def split: sum.splits)

lemma toy_env_neuter_follows_child: "neuter_follows_child toy_env"
proof -
  have "\<exists>pub. toy_Neuter c = Inr pub" for c by (cases c) simp_all
  then show ?thesis by (simp add: neuter_follows_child_def toy_env_def)
qed

section \<open>The claims\<close>

subsection \<open>C1: an error of the inner DeriveCoinTypeKey call\<close>

text \<open>
  C1 says that when the \<open>DeriveCoinTypeKey\<close> call inside
  \<open>LocalKeyMaker.DeriveAccountKey\<close> returns an error, \<open>DeriveAccountKey\<close>
  returns that error and no key pair. The code does not do so: the error of
  line 142 is never read, and line 144 calls \<open>Child\<close> on the nil key. On a
  watching-only wallet (no cached root key, no private record in the store),
  scope 44'/0' and account 0, the inner call returns \<open>ErrWatchingOnly\<close> and
  \<open>DeriveAccountKey\<close> panics instead of returning it.
\<close>

theorem DeriveAccountKey_ignores_coin_type_error:
  "DeriveCoinTypeKey toy_env bip44_btc store_watching_only unlocked_decryptor
       no_root_maker world0 =
     (Return (Inl (ManagerError ErrWatchingOnly [] None)), no_root_maker,
      \<lparr>events = [CallFetchMasterHDKeys], buffers = []\<rparr>) \<and>
   0 \<le> MaxAccountNum toy_env \<and>
   DeriveAccountKey toy_env bip44_btc 0 store_watching_only unlocked_decryptor
       no_root_maker world0 =
     (Panic nil_dereference, no_root_maker,
      \<lparr>events = [CallFetchMasterHDKeys], buffers = []\<rparr>)"
  by (simp add: op_defs toy_defs)

subsection \<open>C2: coin type above the maximum\<close>

text \<open>
  C2: for every maker and every scope with \<open>scope.Coin > maxCoinType\<close>,
  \<open>DeriveCoinTypeKey\<close> returns the \<open>ErrCoinTypeTooHigh\<close> error and no key
  pair; the maker (so its cached root key) and the world (so the log: no store
  lookup, no decrypt) come back as they went in.
\<close>

theorem DeriveCoinTypeKey_coin_too_high:
  assumes "maxCoinType env < Coin scope"
  shows "DeriveCoinTypeKey env scope ns dec s w =
     (Return (Inl (managerError ErrCoinTypeTooHigh (errCoinTypeTooHigh env) None)), s, w)"
  using assms by (simp add: DeriveCoinTypeKey_def)

theorem DeriveCoinTypeKey_coin_too_high_witness:
  "maxCoinType toy_env < Coin coin_too_high \<and>
   DeriveCoinTypeKey toy_env coin_too_high store_with_key unlocked_decryptor rooted_maker world0 =
     (Return (Inl (ManagerError ErrCoinTypeTooHigh ''coin type may not exceed 2^31 - 1'' None)),
      rooted_maker, world0)"
  using DeriveCoinTypeKey_coin_too_high
    [of toy_env coin_too_high store_with_key unlocked_decryptor rooted_maker world0]
  by (simp add: toy_env_def coin_too_high_def managerError_def)

subsection \<open>C3: account number above the maximum\<close>

text \<open>
  C3: for every maker, scope and account with \<open>account > MaxAccountNum\<close>,
  \<open>DeriveAccountKey\<close> returns the \<open>ErrAccountNumTooHigh\<close> error before
  \<open>DeriveCoinTypeKey\<close> is called: maker and world are unchanged, so no child
  derivation, store lookup or decrypt was logged, and the result is the same
  whatever the key library, the store and the decryptor are.
\<close>

theorem DeriveAccountKey_account_too_high:
  assumes "MaxAccountNum env < account"
  shows "DeriveAccountKey env scope account ns dec s w =
     (Return (Inl (managerError ErrAccountNumTooHigh (errAcctTooHigh env) None)), s, w)"
  using assms by (simp add: DeriveAccountKey_def)

theorem DeriveAccountKey_account_too_high_witness:
  "MaxAccountNum toy_env < 0x7FFFFFFF \<and>
   DeriveAccountKey toy_env bip44_btc 0x7FFFFFFF store_with_key unlocked_decryptor
       no_root_maker world0 =
     (Return (Inl (ManagerError ErrAccountNumTooHigh ''account number may not exceed 2^31 - 2''
        None)), no_root_maker, world0)"
  using DeriveAccountKey_account_too_high
    [of toy_env "0x7FFFFFFF" bip44_btc store_with_key unlocked_decryptor no_root_maker world0]
  by (simp add: toy_env_def managerError_def)

subsection \<open>C4: a watching-only store\<close>

text \<open>
  C4: for every maker without a cached root key and every scope with
  \<open>scope.Coin \<le> maxCoinType\<close>, if the store lookup returns no encrypted private
  record, \<open>DeriveCoinTypeKey\<close> returns the \<open>ErrWatchingOnly\<close> error; the only
  call it logs is the lookup, so \<open>Decrypt\<close> is not invoked.
\<close>

theorem DeriveCoinTypeKey_watching_only:
  assumes "rootPrivKey s = None"
    and "Coin scope \<le> maxCoinType env"
    and "fetchMasterHDKeys env ns = Inr (None, pubEnc)"
  shows "DeriveCoinTypeKey env scope ns dec s w =
           (Return (Inl (managerError ErrWatchingOnly [] None)), s,
            w\<lparr>events := events w @ [CallFetchMasterHDKeys]\<rparr>) \<and>
         decrypts (w\<lparr>events := events w @ [CallFetchMasterHDKeys]\<rparr>) = decrypts w"
  using assms leD[OF assms(2)]
  by (simp add: DeriveCoinTypeKey_def record_call_def decrypts_def)

theorem DeriveCoinTypeKey_watching_only_witness:
  "rootPrivKey no_root_maker = None \<and>
   Coin bip44_btc \<le> maxCoinType toy_env \<and>
   fetchMasterHDKeys toy_env store_watching_only = Inr (None, Some [5, 5]) \<and>
   DeriveCoinTypeKey toy_env bip44_btc store_watching_only unlocked_decryptor
       no_root_maker world0 =
     (Return (Inl (ManagerError ErrWatchingOnly [] None)), no_root_maker,
      \<lparr>events = [CallFetchMasterHDKeys], buffers = []\<rparr>) \<and>
   decrypts \<lparr>events = [CallFetchMasterHDKeys], buffers = []\<rparr> = (0::nat)"
  using DeriveCoinTypeKey_watching_only
    [of no_root_maker bip44_btc toy_env store_watching_only "Some [5, 5]" unlocked_decryptor
       world0]
  by (simp add: toy_env_def bip44_btc_def no_root_maker_def store_watching_only_def world0_def
      managerError_def decrypts_def)

subsection \<open>C5: a failing decryptor\<close>

text \<open>
  C5, as the code has it: for every maker without a cached root key and every
  scope with \<open>scope.Coin \<le> maxCoinType\<close>, if the store holds an encrypted
  private record and \<open>Decrypt\<close> fails on it, \<open>DeriveCoinTypeKey\<close> returns the
  \<open>ErrLocked\<close> error wrapping the decryptor's error, after one lookup and one
  decrypt, and the maker is unchanged, its cached root key still absent. A
  later call with a decryptor that works then succeeds: if the record decrypts
  and parses to \<open>root\<close> and the two child steps and the neutering succeed, the
  later call on that maker returns the coin-type pair and caches \<open>root\<close>.
\<close>

theorem DeriveCoinTypeKey_locked:
  assumes "rootPrivKey s = None"
    and "Coin scope \<le> maxCoinType env"
    and "fetchMasterHDKeys env ns = Inr (Some enc, pubEnc)"
    and "Decrypt dec enc = Inl e"
  shows "DeriveCoinTypeKey env scope ns dec s w =
           (Return (Inl (managerError ErrLocked
              ''failed to decrypt master root serialized private key'' (Some e))), s,
            w\<lparr>events := events w @ [CallFetchMasterHDKeys, CallDecrypt enc]\<rparr>) \<and>
         rootPrivKey (fst (snd (DeriveCoinTypeKey env scope ns dec s w))) = None \<and>
         (Decrypt dec_later enc = Inr pt \<and> NewKeyFromString env pt = Inr root \<and>
          Child env root (Purpose scope + HardenedKeyStart env) = Inr pk \<and>
          Child env pk (Coin scope + HardenedKeyStart env) = Inr ck \<and>
          Neuter env ck = Inr cpub \<longrightarrow>
            fst (DeriveCoinTypeKey env scope ns dec_later
                   (fst (snd (DeriveCoinTypeKey env scope ns dec s w)))
                   (snd (snd (DeriveCoinTypeKey env scope ns dec s w)))) =
              Return (Inr (ck, cpub)) \<and>
            rootPrivKey (fst (snd (DeriveCoinTypeKey env scope ns dec_later
                   (fst (snd (DeriveCoinTypeKey env scope ns dec s w)))
                   (snd (snd (DeriveCoinTypeKey env scope ns dec s w)))))) = Some root)"
proof -
  let ?w' = "w\<lparr>events := events w @ [CallFetchMasterHDKeys, CallDecrypt enc]\<rparr>"
  have first: "DeriveCoinTypeKey env scope ns dec s w =
      (Return (Inl (managerError ErrLocked
         ''failed to decrypt master root serialized private key'' (Some e))), s, ?w')"
    using assms leD[OF assms(2)]
    by (simp add: DeriveCoinTypeKey_def record_call_def Let_def)
  have retry: "fst (DeriveCoinTypeKey env scope ns dec_later s ?w') = Return (Inr (ck, cpub)) \<and>
      rootPrivKey (fst (snd (DeriveCoinTypeKey env scope ns dec_later s ?w'))) = Some root"
    if "Decrypt dec_later enc = Inr pt" "NewKeyFromString env pt = Inr root"
      "Child env root (Purpose scope + HardenedKeyStart env) = Inr pk"
      "Child env pk (Coin scope + HardenedKeyStart env) = Inr ck"
      "Neuter env ck = Inr cpub"
    using that DeriveCoinTypeKey_loads[OF assms(1,2,3) that(1), of ?w']
      coinTypeFromRoot_ok[OF that(3,4,5)]
    by (simp add: Let_def)
  from first retry assms(1) show ?thesis by simp
qed

theorem DeriveCoinTypeKey_locked_witness:
  "rootPrivKey no_root_maker = None \<and>
   Coin bip44_btc \<le> maxCoinType toy_env \<and>
   fetchMasterHDKeys toy_env store_with_key = Inr (Some [4, 3, 2, 1], Some [5, 5]) \<and>
   Decrypt locked_decryptor [4, 3, 2, 1] = Inl (ErrorString ''wrong passphrase'') \<and>
   DeriveCoinTypeKey toy_env bip44_btc store_with_key locked_decryptor no_root_maker world0 =
     (Return (Inl locked_error), no_root_maker, locked_world) \<and>
   rootPrivKey (fst (snd (DeriveCoinTypeKey toy_env bip44_btc store_with_key locked_decryptor
      no_root_maker world0))) = None \<and>
   Decrypt unlocked_decryptor [4, 3, 2, 1] = Inr [1, 2, 3, 4] \<and>
   NewKeyFromString toy_env [1, 2, 3, 4] = Inr stored_root \<and>
   Child toy_env stored_root (Purpose bip44_btc + HardenedKeyStart toy_env) =
     Inr (ToyPriv [1, 2, 3, 4] [0x8000002C]) \<and>
   Child toy_env (ToyPriv [1, 2, 3, 4] [0x8000002C]) (Coin bip44_btc + HardenedKeyStart toy_env) =
     Inr btc_priv \<and>
   Neuter toy_env btc_priv = Inr btc_pub \<and>
   fst (DeriveCoinTypeKey toy_env bip44_btc store_with_key unlocked_decryptor no_root_maker
          locked_world) = Return (Inr (btc_priv, btc_pub)) \<and>
   rootPrivKey (fst (snd (DeriveCoinTypeKey toy_env bip44_btc store_with_key unlocked_decryptor
          no_root_maker locked_world))) = Some stored_root"
  using DeriveCoinTypeKey_locked
    [where s = no_root_maker and env = toy_env and ns = store_with_key and enc = "[4, 3, 2, 1]"
       and pubEnc = "Some [5, 5]" and dec = locked_decryptor
       and e = "ErrorString ''wrong passphrase''" and scope = bip44_btc and w = world0
       and dec_later = unlocked_decryptor and pt = "[1, 2, 3, 4]" and root = stored_root
       and pk = "ToyPriv [1, 2, 3, 4] [0x8000002C]" and ck = btc_priv and cpub = btc_pub]
  by (simp add: op_defs toy_defs decrypts_def)

text \<open>
  C5 as it is worded, for every scope, does not hold: the bound on the coin
  type is checked first. With no cached key, a record in the store and a
  decryptor that fails, a scope whose coin type is above the maximum gets
  \<open>ErrCoinTypeTooHigh\<close>, not \<open>ErrLocked\<close>, and the decryptor is not called.
\<close>

theorem DeriveCoinTypeKey_locked_counterexample:
  "rootPrivKey no_root_maker = None \<and>
   fetchMasterHDKeys toy_env store_with_key = Inr (Some [4, 3, 2, 1], Some [5, 5]) \<and>
   Decrypt locked_decryptor [4, 3, 2, 1] = Inl (ErrorString ''wrong passphrase'') \<and>
   DeriveCoinTypeKey toy_env coin_too_high store_with_key locked_decryptor no_root_maker world0 =
     (Return (Inl (ManagerError ErrCoinTypeTooHigh ''coin type may not exceed 2^31 - 1'' None)),
      no_root_maker, world0) \<and>
   fst (DeriveCoinTypeKey toy_env coin_too_high store_with_key locked_decryptor no_root_maker
          world0) \<noteq>
     Return (Inl (managerError ErrLocked
        ''failed to decrypt master root serialized private key''
        (Some (ErrorString ''wrong passphrase''))))"
  by (simp add: op_defs toy_defs)

subsection \<open>C6: the account key is the key of the manual path\<close>

text \<open>
  C6: take the maker built by \<open>NewLocalKeyMakerFromSeed\<close> from seed \<open>S\<close> and
  chain parameters \<open>P\<close>, on which \<open>CreateMasterKey\<close> has succeeded, and a scope
  and an account within the bounds. Whenever \<open>DeriveAccountKey\<close> returns a key
  pair, its private key is
  \<open>NewMaster(S,P).Child(Purpose+H).Child(Coin+H).Child(account+H)\<close>. And whenever
  that manual path exists, \<open>DeriveAccountKey\<close> does return it, with its neutered
  key as the public half, without touching the maker, the store or the
  decryptor; here the key library is one where a key whose parent can be
  neutered can be neutered too, as in hdkeychain.
\<close>

theorem DeriveAccountKey_follows_manual_path:
  assumes "CreateMasterKey env (NewLocalKeyMakerFromSeed S P) wi = (Return (Inr (m, mpub)), s, wc)"
    and "Coin scope \<le> maxCoinType env"
    and "account \<le> MaxAccountNum env"
  shows "(DeriveAccountKey env scope account ns dec s w = (Return (Inr (K, Kpub)), s', w') \<longrightarrow>
            spec_manual_account_key env S P scope account = Inr K) \<and>
         (spec_manual_account_key env S P scope account = Inr K \<and> neuter_follows_child env \<longrightarrow>
            (\<exists>pub. Neuter env K = Inr pub \<and>
               fst (DeriveAccountKey env scope account ns dec s w) = Return (Inr (K, pub))) \<and>
            fst (snd (DeriveAccountKey env scope account ns dec s w)) = s \<and>
            lookups (snd (snd (DeriveAccountKey env scope account ns dec s w))) = lookups w \<and>
            decrypts (snd (snd (DeriveAccountKey env scope account ns dec s w))) = decrypts w)"
proof -
  have master: "NewMaster env S P = Inr m" and mpub: "Neuter env m = Inr mpub"
    and cached: "rootPrivKey s = Some m"
    using CreateMasterKey_success[OF assms(1)] by (simp_all add: NewLocalKeyMakerFromSeed_def)
  note dctk = DeriveCoinTypeKey_cached[OF cached assms(2), of ns dec w]
  have sound: "spec_manual_account_key env S P scope account = Inr K"
    if run: "DeriveAccountKey env scope account ns dec s w = (Return (Inr (K, Kpub)), s', w')"
  proof (cases "fst (coinTypeFromRoot env m scope w)")
    case (Inl e)
    with DeriveAccountKey_drops_error[OF assms(3), of scope ns dec s w e] dctk run
    show ?thesis by simp
  next
    case (Inr kp)
    obtain ck cpub where kp: "kp = (ck, cpub)" by (cases kp)
    from Inr kp obtain pk where
      pk: "Child env m (Purpose scope + HardenedKeyStart env) = Inr pk" and
      ck: "Child env pk (Coin scope + HardenedKeyStart env) = Inr ck"
      using coinTypeFromRoot_Inr[of env m scope w ck cpub] by auto
    have "Child env ck (account + HardenedKeyStart env) = Inr K"
      using DeriveAccountKey_continues[OF assms(3), of scope ns dec s w ck cpub] dctk run Inr kp
      by (auto simp: Let_def split: sum.splits)
    with master pk ck show ?thesis
      by (simp add: spec_manual_account_key_def and_then_def)
  qed
  have complete: "\<exists>pub. Neuter env K = Inr pub \<and>
       fst (DeriveAccountKey env scope account ns dec s w) = Return (Inr (K, pub))"
    if manual: "spec_manual_account_key env S P scope account = Inr K"
      and nfc: "neuter_follows_child env"
  proof -
    from manual master obtain pk ck where
      pk: "Child env m (Purpose scope + HardenedKeyStart env) = Inr pk" and
      ck: "Child env pk (Coin scope + HardenedKeyStart env) = Inr ck" and
      ak: "Child env ck (account + HardenedKeyStart env) = Inr K"
      by (auto simp: spec_manual_account_key_def and_then_def split: sum.splits)
    from nfc mpub pk obtain ppub where "Neuter env pk = Inr ppub"
      unfolding neuter_follows_child_def by blast
    with nfc ck obtain cpub where cpub: "Neuter env ck = Inr cpub"
      unfolding neuter_follows_child_def by blast
    with nfc ak obtain apub where apub: "Neuter env K = Inr apub"
      unfolding neuter_follows_child_def by blast
    have "fst (coinTypeFromRoot env m scope w) = Inr (ck, cpub)"
      using coinTypeFromRoot_ok[OF pk ck cpub] .
    then have "fst (DeriveAccountKey env scope account ns dec s w) = Return (Inr (K, apub))"
      using DeriveAccountKey_continues[OF assms(3), of scope ns dec s w ck cpub] dctk ak apub
      by (simp add: Let_def)
    with apub show ?thesis by blast
  qed
  from sound complete DeriveAccountKey_cached[OF cached assms(2,3), of ns dec w]
  show ?thesis by blast
qed

theorem DeriveAccountKey_follows_manual_path_witness:
  "CreateMasterKey toy_env (NewLocalKeyMakerFromSeed seed16 (Some 0)) world0 =
     (Return (Inr (toy_master, ToyPub seed16 [])), created_maker,
      \<lparr>events = [CallNewMaster, CallNeuter toy_master], buffers = []\<rparr>) \<and>
   Coin bip44_btc \<le> maxCoinType toy_env \<and>
   0 \<le> MaxAccountNum toy_env \<and>
   DeriveAccountKey toy_env bip44_btc 0 store_watching_only locked_decryptor created_maker world0 =
     (Return (Inr (toy_account, toy_account_pub)), created_maker,
      \<lparr>events = [CallChild toy_master 0x8000002C,
                 CallChild (ToyPriv seed16 [0x8000002C]) 0x80000000,
                 CallNeuter toy_coin_key,
                 CallChild toy_coin_key 0x80000000,
                 CallNeuter toy_account],
       buffers = []\<rparr>) \<and>
   spec_manual_account_key toy_env seed16 (Some 0) bip44_btc 0 = Inr toy_account \<and>
   neuter_follows_child toy_env \<and>
   Neuter toy_env toy_account = Inr toy_account_pub \<and>
   lookups (snd (snd (DeriveAccountKey toy_env bip44_btc 0 store_watching_only locked_decryptor
      created_maker world0))) = lookups world0 \<and>
   decrypts (snd (snd (DeriveAccountKey toy_env bip44_btc 0 store_watching_only locked_decryptor
      created_maker world0))) = decrypts world0"
  using DeriveAccountKey_follows_manual_path
    [where env = toy_env and S = seed16 and P = "Some 0" and wi = world0
       and m = toy_master and mpub = "ToyPub seed16 []" and s = created_maker
       and wc = "\<lparr>events = [CallNewMaster, CallNeuter toy_master], buffers = []\<rparr>"
       and scope = bip44_btc and account = 0 and ns = store_watching_only
       and dec = locked_decryptor and w = world0 and K = toy_account
       and Kpub = toy_account_pub and s' = created_maker
       and w' = "\<lparr>events = [CallChild toy_master 0x8000002C,
                 CallChild (ToyPriv seed16 [0x8000002C]) 0x80000000,
                 CallNeuter toy_coin_key,
                 CallChild toy_coin_key 0x80000000,
                 CallNeuter toy_account],
               buffers = []\<rparr>"]
    toy_env_neuter_follows_child
  by (simp add: op_defs toy_defs spec_manual_account_key_def and_then_def lookups_def
      decrypts_def)

subsection \<open>C7: the cached root key\<close>

text \<open>
  C7, as the code has it. Once the cached root key of a maker is set, no
  operation clears it (\<open>CreateMasterKey\<close> leaves a key there,
  \<open>DeriveCoinTypeKey\<close> and \<open>DeriveAccountKey\<close> leave the very same key), and a
  \<open>DeriveCoinTypeKey\<close> call on it logs no store lookup and no decrypt. Two
  calls in a row on a maker that starts without a cached key make exactly one
  lookup and one decrypt, the second call giving what the cached key gives,
  when the first call loads the key: its scope is in bounds, the store holds
  a record, and decrypting and parsing it succeed.
\<close>

theorem root_key_cache_is_kept:
  "(rootPrivKey s \<noteq> None \<longrightarrow>
      rootPrivKey (fst (snd (CreateMasterKey env s w))) \<noteq> None \<and>
      rootPrivKey (fst (snd (DeriveCoinTypeKey env scope ns dec s w))) = rootPrivKey s \<and>
      rootPrivKey (fst (snd (DeriveAccountKey env scope account ns dec s w))) = rootPrivKey s \<and>
      lookups (snd (snd (DeriveCoinTypeKey env scope ns dec s w))) = lookups w \<and>
      decrypts (snd (snd (DeriveCoinTypeKey env scope ns dec s w))) = decrypts w) \<and>
   (rootPrivKey t = None \<and> Coin scopeA \<le> maxCoinType env \<and>
    fetchMasterHDKeys env ns = Inr (Some enc, pubEnc) \<and> Decrypt dec enc = Inr pt \<and>
    NewKeyFromString env pt = Inr root \<and>
    DeriveCoinTypeKey_twice env scopeA scopeB ns dec t w = (rA, rB, tB, wB) \<longrightarrow>
      lookups wB = lookups w + 1 \<and> decrypts wB = decrypts w + 1 \<and>
      rootPrivKey tB = Some root \<and>
      rB = fst (DeriveCoinTypeKey env scopeB ns dec (t\<lparr>rootPrivKey := Some root\<rparr>) w))"
proof -
  note quiet = DeriveCoinTypeKey_cached_quiet[of _ _ env _ ns dec]
  have A: "rootPrivKey (fst (snd (CreateMasterKey env s w))) \<noteq> None \<and>
      rootPrivKey (fst (snd (DeriveCoinTypeKey env scope ns dec s w))) = rootPrivKey s \<and>
      rootPrivKey (fst (snd (DeriveAccountKey env scope account ns dec s w))) = rootPrivKey s \<and>
      lookups (snd (snd (DeriveCoinTypeKey env scope ns dec s w))) = lookups w \<and>
      decrypts (snd (snd (DeriveCoinTypeKey env scope ns dec s w))) = decrypts w"
    if "rootPrivKey s \<noteq> None"
  proof -
    from that obtain k where k: "rootPrivKey s = Some k" by auto
    have c: "rootPrivKey (fst (snd (CreateMasterKey env s w))) \<noteq> None"
      using k by (simp add: CreateMasterKey_def Let_def split: sum.splits)
    obtain r1 s1 w1 where run: "DeriveCoinTypeKey env scope ns dec s w = (r1, s1, w1)"
      by (cases "DeriveCoinTypeKey env scope ns dec s w") auto
    with quiet[OF k, of scope w] have s1: "s1 = s" by simp
    have "fst (snd (DeriveAccountKey env scope account ns dec s w)) = s"
      using run s1
      by (auto simp: DeriveAccountKey_def Let_def split: outcome.splits sum.splits option.splits)
    with c quiet[OF k, of scope w] show ?thesis by simp
  qed
  have B: "lookups wB = lookups w + 1 \<and> decrypts wB = decrypts w + 1 \<and>
      rootPrivKey tB = Some root \<and>
      rB = fst (DeriveCoinTypeKey env scopeB ns dec (t\<lparr>rootPrivKey := Some root\<rparr>) w)"
    if none: "rootPrivKey t = None" and inb: "Coin scopeA \<le> maxCoinType env"
      and fetch: "fetchMasterHDKeys env ns = Inr (Some enc, pubEnc)"
      and decr: "Decrypt dec enc = Inr pt" and parse: "NewKeyFromString env pt = Inr root"
      and two: "DeriveCoinTypeKey_twice env scopeA scopeB ns dec t w = (rA, rB, tB, wB)"
  proof -
    let ?w5 = "record_call (CallZeroBytes (length (buffers w)))
       (w\<lparr>events := events w @ [CallFetchMasterHDKeys, CallDecrypt enc, CallNewKeyFromString],
          buffers := buffers w @ [map (\<lambda>_. 0) pt]\<rparr>)"
    let ?t1 = "t\<lparr>rootPrivKey := Some root\<rparr>"
    let ?w1 = "snd (coinTypeFromRoot env root scopeA ?w5)"
    have first: "DeriveCoinTypeKey env scopeA ns dec t w =
        (Return (fst (coinTypeFromRoot env root scopeA ?w5)), ?t1, ?w1)"
      using DeriveCoinTypeKey_loads[OF none inb fetch decr, of w] parse by (simp add: Let_def)
    have w5: "lookups ?w5 = lookups w + 1 \<and> decrypts ?w5 = decrypts w + 1"
      by (simp add: lookups_def decrypts_def record_call_def)
    have w1: "lookups ?w1 = lookups w + 1 \<and> decrypts ?w1 = decrypts w + 1"
      using coinTypeFromRoot_quiet[of env root scopeA ?w5] w5 by simp
    have cached: "rootPrivKey ?t1 = Some root" by simp
    from two first have second:
      "DeriveCoinTypeKey env scopeB ns dec ?t1 ?w1 = (rB, tB, wB)"
      by (simp add: DeriveCoinTypeKey_twice_def split: prod.splits)
    have "rB = fst (DeriveCoinTypeKey env scopeB ns dec ?t1 w)"
      using second coinTypeFromRoot_result[of env root scopeB ?w1 w]
      by (auto simp: DeriveCoinTypeKey_def split: prod.splits if_splits)
    with quiet[OF cached, of scopeB ?w1] second w1 show ?thesis by simp
  qed
  from A B show ?thesis by blast
qed

theorem root_key_cache_is_kept_witness:
  "rootPrivKey rooted_maker \<noteq> None \<and>
   rootPrivKey (fst (snd (CreateMasterKey toy_env rooted_maker world0))) \<noteq> None \<and>
   rootPrivKey (fst (snd (DeriveCoinTypeKey toy_env bip44_btc store_with_key unlocked_decryptor
      rooted_maker world0))) = rootPrivKey rooted_maker \<and>
   rootPrivKey (fst (snd (DeriveAccountKey toy_env bip44_btc 0 store_with_key unlocked_decryptor
      rooted_maker world0))) = rootPrivKey rooted_maker \<and>
   lookups (snd (snd (DeriveCoinTypeKey toy_env bip44_btc store_with_key unlocked_decryptor
      rooted_maker world0))) = lookups world0 \<and>
   decrypts (snd (snd (DeriveCoinTypeKey toy_env bip44_btc store_with_key unlocked_decryptor
      rooted_maker world0))) = decrypts world0 \<and>
   rootPrivKey no_root_maker = None \<and>
   Coin bip44_btc \<le> maxCoinType toy_env \<and>
   fetchMasterHDKeys toy_env store_with_key = Inr (Some [4, 3, 2, 1], Some [5, 5]) \<and>
   Decrypt unlocked_decryptor [4, 3, 2, 1] = Inr [1, 2, 3, 4] \<and>
   NewKeyFromString toy_env [1, 2, 3, 4] = Inr stored_root \<and>
   DeriveCoinTypeKey_twice toy_env bip44_btc bip44_btc store_with_key unlocked_decryptor
       no_root_maker world0 =
     (Return (Inr (btc_priv, btc_pub)), Return (Inr (btc_priv, btc_pub)),
      no_root_maker\<lparr>rootPrivKey := Some stored_root\<rparr>,
      \<lparr>events = load_events @ derive_btc_events @ derive_btc_events,
       buffers = [[0, 0, 0, 0]]\<rparr>) \<and>
   lookups \<lparr>events = load_events @ derive_btc_events @ derive_btc_events,
            buffers = [[0, 0, 0, 0]]\<rparr> = lookups world0 + 1 \<and>
   decrypts \<lparr>events = load_events @ derive_btc_events @ derive_btc_events,
             buffers = [[0, 0, 0, 0]]\<rparr> = decrypts world0 + 1 \<and>
   fst (DeriveCoinTypeKey toy_env bip44_btc store_with_key unlocked_decryptor
          (no_root_maker\<lparr>rootPrivKey := Some stored_root\<rparr>) world0) =
     Return (Inr (btc_priv, btc_pub))"
  using root_key_cache_is_kept
    [where s = rooted_maker and env = toy_env and w = world0 and scope = bip44_btc
       and ns = store_with_key and dec = unlocked_decryptor and account = 0
       and t = no_root_maker and scopeA = bip44_btc and scopeB = bip44_btc
       and enc = "[4, 3, 2, 1]" and pubEnc = "Some [5, 5]" and pt = "[1, 2, 3, 4]"
       and root = stored_root
       and rA = "Return (Inr (btc_priv, btc_pub))" and rB = "Return (Inr (btc_priv, btc_pub))"
       and tB = "no_root_maker\<lparr>rootPrivKey := Some stored_root\<rparr>"
       and wB = "\<lparr>events = load_events @ derive_btc_events @ derive_btc_events,
                 buffers = [[0, 0, 0, 0]]\<rparr>"]
  by (simp add: DeriveCoinTypeKey_twice_def op_defs toy_defs lookups_def decrypts_def)

text \<open>
  C7 as it is worded, for every maker that starts without a cached key, does
  not hold: a failed load caches nothing, so the next call looks the record up
  again. With a store that holds a record and a decryptor that fails, two calls
  make two lookups and two decrypts, and the key is still not cached.
\<close>

theorem two_calls_locked_counterexample:
  "rootPrivKey no_root_maker = None \<and>
   Coin bip44_btc \<le> maxCoinType toy_env \<and>
   DeriveCoinTypeKey_twice toy_env bip44_btc bip44_btc store_with_key locked_decryptor
       no_root_maker world0 =
     (Return (Inl locked_error), Return (Inl locked_error), no_root_maker,
      \<lparr>events = [CallFetchMasterHDKeys, CallDecrypt [4, 3, 2, 1],
                 CallFetchMasterHDKeys, CallDecrypt [4, 3, 2, 1]],
       buffers = []\<rparr>) \<and>
   lookups (snd (snd (snd (DeriveCoinTypeKey_twice toy_env bip44_btc bip44_btc store_with_key
      locked_decryptor no_root_maker world0)))) = 2 \<and>
   decrypts (snd (snd (snd (DeriveCoinTypeKey_twice toy_env bip44_btc bip44_btc store_with_key
      locked_decryptor no_root_maker world0)))) = 2"
  by (simp add: DeriveCoinTypeKey_twice_def op_defs toy_defs lookups_def decrypts_def)

subsection \<open>C8: the plaintext buffer is wiped\<close>

text \<open>
  C8: on every run of \<open>DeriveCoinTypeKey\<close> that decrypts the stored root key
  successfully (no cached key, scope in bounds, a record in the store,
  \<open>Decrypt\<close> returns the plaintext), whatever parsing and the later steps do and
  whatever the function returns, the buffer that \<open>Decrypt\<close> returned holds only
  zero bytes at the return, and the call of \<open>zero.Bytes\<close> on it is in the log.
\<close>

theorem DeriveCoinTypeKey_erases_plaintext:
  assumes "rootPrivKey s = None"
    and "Coin scope \<le> maxCoinType env"
    and "fetchMasterHDKeys env ns = Inr (Some enc, pubEnc)"
    and "Decrypt dec enc = Inr pt"
    and "DeriveCoinTypeKey env scope ns dec s w = (r, s', w')"
  shows "buffers w' = buffers w @ [replicate (length pt) 0] \<and>
         CallZeroBytes (length (buffers w)) \<in> set (events w')"
proof (cases "NewKeyFromString env pt")
  case (Inl err)
  with DeriveCoinTypeKey_loads[OF assms(1-4), of w] assms(5) show ?thesis
    by (auto simp: Let_def record_call_def map_replicate_const)
next
  case (Inr root)
  let ?w5 = "record_call (CallZeroBytes (length (buffers w)))
     (w\<lparr>events := events w @ [CallFetchMasterHDKeys, CallDecrypt enc, CallNewKeyFromString],
        buffers := buffers w @ [map (\<lambda>_. 0) pt]\<rparr>)"
  have w': "w' = snd (coinTypeFromRoot env root scope ?w5)"
    using DeriveCoinTypeKey_loads[OF assms(1-4), of w] assms(5) Inr by (simp add: Let_def)
  have "buffers w' = buffers ?w5"
    using coinTypeFromRoot_quiet[of env root scope ?w5] w' by simp
  moreover have "set (events ?w5) \<subseteq> set (events w')"
    unfolding w' by (auto simp: coinTypeFromRoot_def Let_def record_call_def split: sum.splits)
  ultimately show ?thesis
    by (auto simp: record_call_def map_replicate_const)
qed

text \<open>The witness runs both exits: a record that does not parse, and one that does.\<close>

theorem DeriveCoinTypeKey_erases_plaintext_witness:
  "rootPrivKey no_root_maker = None \<and>
   Coin bip44_btc \<le> maxCoinType toy_env \<and>
   fetchMasterHDKeys toy_env store_corrupt = Inr (Some [4, 3, 2], Some [5, 5]) \<and>
   Decrypt unlocked_decryptor [4, 3, 2] = Inr [2, 3, 4] \<and>
   DeriveCoinTypeKey toy_env bip44_btc store_corrupt unlocked_decryptor no_root_maker world0 =
     (Return (Inl (ManagerError ErrKeyChain ''failed to create master extended private key''
        (Some (ErrorString ''the provided serialized extended key length is invalid'')))),
      no_root_maker,
      \<lparr>events = [CallFetchMasterHDKeys, CallDecrypt [4, 3, 2], CallNewKeyFromString,
                 CallZeroBytes 0],
       buffers = [[0, 0, 0]]\<rparr>) \<and>
   fetchMasterHDKeys toy_env store_with_key = Inr (Some [4, 3, 2, 1], Some [5, 5]) \<and>
   Decrypt unlocked_decryptor [4, 3, 2, 1] = Inr [1, 2, 3, 4] \<and>
   DeriveCoinTypeKey toy_env bip44_btc store_with_key unlocked_decryptor no_root_maker world0 =
     (Return (Inr (btc_priv, btc_pub)), no_root_maker\<lparr>rootPrivKey := Some stored_root\<rparr>,
      \<lparr>events = load_events @ derive_btc_events, buffers = [[0, 0, 0, 0]]\<rparr>) \<and>
   CallZeroBytes 0 \<in> set (load_events @ derive_btc_events)"
  using DeriveCoinTypeKey_erases_plaintext
    [where s = no_root_maker and env = toy_env and ns = store_corrupt and enc = "[4, 3, 2]"
       and pubEnc = "Some [5, 5]" and dec = unlocked_decryptor and pt = "[2, 3, 4]"
       and scope = bip44_btc and w = world0 and s' = no_root_maker
       and r = "Return (Inl (ManagerError ErrKeyChain
          ''failed to create master extended private key''
          (Some (ErrorString ''the provided serialized extended key length is invalid''))))"
       and w' = "\<lparr>events = [CallFetchMasterHDKeys, CallDecrypt [4, 3, 2], CallNewKeyFromString,
                 CallZeroBytes 0], buffers = [[0, 0, 0]]\<rparr>"]
    DeriveCoinTypeKey_erases_plaintext
    [where s = no_root_maker and env = toy_env and ns = store_with_key and enc = "[4, 3, 2, 1]"
       and pubEnc = "Some [5, 5]" and dec = unlocked_decryptor and pt = "[1, 2, 3, 4]"
       and scope = bip44_btc and w = world0
       and s' = "no_root_maker\<lparr>rootPrivKey := Some stored_root\<rparr>"
       and r = "Return (Inr (btc_priv, btc_pub))"
       and w' = "\<lparr>events = load_events @ derive_btc_events, buffers = [[0, 0, 0, 0]]\<rparr>"]
  by (simp add: op_defs toy_defs)

subsection \<open>C9: RemoteKeyMaker\<close>

text \<open>
  C9, as the code has it: the three operations of \<open>RemoteKeyMaker\<close> are stubs.
  On every input each one panics with the value "implement me"; none checks a
  bound and none returns an error value or a key pair.
\<close>

theorem RemoteKeyMaker_operations_panic:
  "Remote_CreateMasterKey s w = (Panic ''implement me'', s, w) \<and>
   Remote_DeriveCoinTypeKey scope ns dec s w = (Panic ''implement me'', s, w) \<and>
   Remote_DeriveAccountKey scope account ns dec s w = (Panic ''implement me'', s, w)"
  by (simp add: Remote_CreateMasterKey_def Remote_DeriveCoinTypeKey_def
      Remote_DeriveAccountKey_def)

text \<open>
  C9 as it is worded does not hold: with a coin type above the maximum,
  \<open>RemoteKeyMaker.DeriveCoinTypeKey\<close> panics, which is not a returned
  \<open>ErrCoinTypeTooHigh\<close> error.
\<close>

theorem RemoteKeyMaker_bounds_counterexample:
  "maxCoinType toy_env < Coin coin_too_high \<and>
   fst (Remote_DeriveCoinTypeKey coin_too_high store_with_key unlocked_decryptor
          remote_maker world0) = Panic ''implement me'' \<and>
   fst (Remote_DeriveCoinTypeKey coin_too_high store_with_key unlocked_decryptor
          remote_maker world0) \<noteq>
     Return (Inl (managerError ErrCoinTypeTooHigh (errCoinTypeTooHigh toy_env) None))"
  by (simp add: Remote_DeriveCoinTypeKey_def toy_env_def coin_too_high_def)

subsection \<open>C10: a failing CreateMasterKey\<close>

text \<open>
  C10: if \<open>LocalKeyMaker.CreateMasterKey\<close> returns an error (from \<open>NewMaster\<close> or
  from \<open>Neuter\<close>), the maker is exactly as before, so its cached root key is.
  In particular a maker built by \<open>NewLocalKeyMaker\<close> from a root key still
  holds that key, and \<open>DeriveCoinTypeKey\<close> with a scope in bounds derives from
  it.
\<close>

theorem CreateMasterKey_error_keeps_root:
  assumes "CreateMasterKey env s w = (Return (Inl e), s', w')"
  shows "s' = s \<and> rootPrivKey s' = rootPrivKey s \<and>
         (NewLocalKeyMaker (Some root) = Inr s \<and> Coin scope \<le> maxCoinType env \<longrightarrow>
            rootPrivKey s' = Some root \<and>
            DeriveCoinTypeKey env scope ns dec s' v =
              (Return (fst (coinTypeFromRoot env root scope v)), s',
               snd (coinTypeFromRoot env root scope v)))"
proof -
  have same: "s' = s"
    using assms by (auto simp: CreateMasterKey_def Let_def split: sum.splits)
  have "rootPrivKey s = Some root" if "NewLocalKeyMaker (Some root) = Inr s"
    using that by (auto simp: NewLocalKeyMaker_def)
  then show ?thesis
    using same DeriveCoinTypeKey_cached[of s root scope env ns dec v] by auto
qed

theorem CreateMasterKey_error_keeps_root_witness:
  "CreateMasterKey toy_env rooted_maker world0 =
     (Return (Inl (ErrorString ''failed to derive master extended key'')), rooted_maker,
      \<lparr>events = [CallNewMaster], buffers = []\<rparr>) \<and>
   NewLocalKeyMaker (Some (ToyPriv [9, 9, 9, 9] [])) = Inr rooted_maker \<and>
   Coin bip44_btc \<le> maxCoinType toy_env \<and>
   rootPrivKey rooted_maker = Some (ToyPriv [9, 9, 9, 9] []) \<and>
   DeriveCoinTypeKey toy_env bip44_btc store_watching_only locked_decryptor rooted_maker world0 =
     (Return (Inr (ToyPriv [9, 9, 9, 9] [0x8000002C, 0x80000000],
                   ToyPub [9, 9, 9, 9] [0x8000002C, 0x80000000])),
      rooted_maker,
      \<lparr>events = [CallChild (ToyPriv [9, 9, 9, 9] []) 0x8000002C,
                 CallChild (ToyPriv [9, 9, 9, 9] [0x8000002C]) 0x80000000,
                 CallNeuter (ToyPriv [9, 9, 9, 9] [0x8000002C, 0x80000000])],
       buffers = []\<rparr>)"
  using CreateMasterKey_error_keeps_root
    [where env = toy_env and s = rooted_maker and w = world0 and s' = rooted_maker
       and e = "ErrorString ''failed to derive master extended key''"
       and w' = "\<lparr>events = [CallNewMaster], buffers = []\<rparr>"
       and root = "ToyPriv [9, 9, 9, 9] []" and scope = bip44_btc
       and ns = store_watching_only and dec = locked_decryptor and v = world0]
  by (simp add: op_defs toy_defs)

end
